theory Spec2Isabelle
  imports Main "HOL-Library.Word"
begin

section \<open>Data model of x/mongo/driver/ocsp/ocsp.go\<close>

text \<open>
  Times are instants counted in nanoseconds from Go's zero time (January 1, year 1,
  00:00:00 UTC), so \<^verbatim>\<open>t.IsZero()\<close> is \<open>t = 0\<close>, \<^verbatim>\<open>t.After(u)\<close> is \<open>u < t\<close> and
  \<^verbatim>\<open>t.Before(u)\<close> is \<open>t < u\<close>. \<^verbatim>\<open>UTC()\<close> changes the location of a time and not
  its instant. A \<^verbatim>\<open>time.Duration\<close> is a number of nanoseconds.
\<close>

type_synonym time = int
type_synonym byte = "8 word"
type_synonym ObjectIdentifier = "int list"
type_synonym cause = string

definition IsZero :: "time \<Rightarrow> bool" where
  "IsZero t = (t = 0)"

definition After :: "time \<Rightarrow> time \<Rightarrow> bool" where
  "After t u = (u < t)"

definition Before :: "time \<Rightarrow> time \<Rightarrow> bool" where
  "Before t u = (t < u)"

definition Second :: int where
  "Second = 1000000000"

definition mustStapleExtensionOID :: ObjectIdentifier where
  "mustStapleExtensionOID = [1, 3, 6, 1, 5, 5, 7, 1, 24]"

definition defaultRequestTimeout :: int where
  "defaultRequestTimeout = 5 * Second"

text \<open>The fields of \<^verbatim>\<open>x509.Certificate\<close> and \<^verbatim>\<open>pkix.Extension\<close> that the file reads.\<close>

record Extension =
  ext_Id :: ObjectIdentifier

record Certificate =
  Extensions :: "Extension list"
  OCSPServer :: "string list"

text \<open>
  The type \<^verbatim>\<open>config\<close> is declared in another file of the package; the fields are the two
  that ocsp.go reads.
\<close>

record config =
  serverCert :: Certificate
  issuer :: Certificate

datatype CertStatus = Good | Revoked | Unknown

record Response =
  Status :: CertStatus
  ThisUpdate :: time
  NextUpdate :: time

record ConnectionState =
  VerifiedChains :: "Certificate list list"
  OCSPResponse :: "byte list"

text \<open>
  A context is the caller's, with or without a deadline, or one derived from another by
  \<^verbatim>\<open>context.WithDeadline\<close> or by \<^verbatim>\<open>errgroup.WithContext\<close> (a cancellable child that keeps
  the parent's deadline). A child never has a later deadline than its parent.
\<close>

datatype Context =
    CallerContext "time option"
  | WithDeadline Context time
  | WithCancel Context

fun Deadline :: "Context \<Rightarrow> time option" where
  "Deadline (CallerContext d) = d"
| "Deadline (WithDeadline parent d) =
     (case Deadline parent of
        None \<Rightarrow> Some d
      | Some cur \<Rightarrow> if Before cur d then Some cur else Some d)"
| "Deadline (WithCancel parent) = Deadline parent"

text \<open>
  What the code observes of the error returned by \<^verbatim>\<open>http.DefaultClient.Do\<close>: whether it
  is a \<^verbatim>\<open>*url.Error\<close>, and then \<^verbatim>\<open>urlErr.Timeout()\<close> and
  \<^verbatim>\<open>urlErr.Err == context.Canceled\<close>.
\<close>

datatype transport_error =
    NotURLError
  | URLError (Timeout: bool) (ErrIsCanceled: bool)

text \<open>
  Errors as values. \<open>Error\<close> is the package's \<^verbatim>\<open>*Error\<close> with its wrapped cause, and
  \<open>errGotOCSPResponse\<close> the sentinel of the task group.
\<close>

datatype error =
    NoVerifiedChains
  | ChainNoCertificates
  | ConfigFailure cause
  | MustStapleMissing
  | StapleParseFailure cause
  | DoFailure transport_error
  | ThisUpdateAfterCurrent time time
  | NextUpdateBeforeCurrent time time
  | CertificateRevoked
  | errGotOCSPResponse
  | Error error

definition newOCSPError :: "error \<Rightarrow> error" where
  "newOCSPError wrapped = Error wrapped"

record HTTPResponse =
  StatusCode :: int
  Body :: "cause + byte list"

text \<open>
  Calls to the collaborators, in the order the model makes them. An HTTP call carries the
  context of its request and the endpoint.
\<close>

datatype call =
    ConfigResolve
  | CodecDecode "byte list"
  | CodecEncode
  | HTTPDo Context string

text \<open>
  What made a request fail in transport. The code cannot read it: it sees the error value
  only. It is a fact of the environment, kept here to state the distinction the
  specification draws between a failure caused by the caller's cancellation or deadline
  and any other.
\<close>

datatype origin =
    CallerCancellation
  | CallerDeadlineExpiry
  | InternalCutoffExpiry
  | GroupCancellation
  | ConnectionRefused
  | DNSFailure

text \<open>
  The collaborators of one verification call: the config resolver \<^verbatim>\<open>newConfig\<close>, the codec
  (\<^verbatim>\<open>ocsp.ParseResponseForCert\<close>, \<^verbatim>\<open>ocsp.CreateRequest\<close>), \<^verbatim>\<open>http.NewRequest\<close> (whether it
  succeeds for an endpoint), the HTTP client (the result of \<^verbatim>\<open>Do\<close> for the task of each
  index, and what made that request fail when it fails), the two readings of
  \<^verbatim>\<open>time.Now()\<close>, and the order in which the tasks of the group return, as task indices.
  \<^verbatim>\<open>newConfig\<close> is declared in another file of the package and is a parameter here, like
  the library functions. The results hold for every environment,
  so for every behaviour of the collaborators and every completion order.
\<close>

record env =
  newConfig :: "Certificate list \<Rightarrow> cause + config"
  ParseResponseForCert :: "byte list \<Rightarrow> Certificate \<Rightarrow> Certificate \<Rightarrow> cause + Response"
  CreateRequest :: "Certificate \<Rightarrow> Certificate \<Rightarrow> cause + byte list"
  NewRequest :: "string \<Rightarrow> bool"
  Do :: "Context \<Rightarrow> nat \<Rightarrow> string \<Rightarrow> byte list \<Rightarrow> transport_error + HTTPResponse"
  failureOrigin :: "nat \<Rightarrow> origin"
  nowQuery :: time
  nowVerify :: time
  completionOrder :: "nat list"

section \<open>parseStaple\<close>

fun mustStaple :: "Extension list \<Rightarrow> bool" where
  "mustStaple [] = False"
| "mustStaple (extension # rest) =
     (if ext_Id extension = mustStapleExtensionOID then True else mustStaple rest)"

definition parseStaple :: "env \<Rightarrow> config \<Rightarrow> byte list \<Rightarrow> (error + Response option) \<times> call list" where
  "parseStaple e cfg staple =
     (if mustStaple (Extensions (serverCert cfg)) \<and> length staple = 0
      then (Inl MustStapleMissing, [])
      else if length staple = 0 then (Inr None, [])
      else (case ParseResponseForCert e staple (serverCert cfg) (issuer cfg) of
              Inl err \<Rightarrow> (Inl (StapleParseFailure err), [CodecDecode staple])
            | Inr parsedResponse \<Rightarrow> (Inr (Some parsedResponse), [CodecDecode staple])))"

section \<open>contactResponders\<close>

text \<open>
  The working context and \<^verbatim>\<open>userContextUsed\<close>, as lines 135 to 146 compute them from
  \<^verbatim>\<open>time.Now()\<close> and the caller's context.
\<close>

definition requestContext :: "time \<Rightarrow> Context \<Rightarrow> Context \<times> bool" where
  "requestContext now ctx =
     (let wantDeadline = now + defaultRequestTimeout in
      case Deadline ctx of
        None \<Rightarrow> (WithDeadline ctx wantDeadline, False)
      | Some deadline \<Rightarrow>
          if After deadline wantDeadline then (WithDeadline ctx wantDeadline, False)
          else (ctx, True))"

text \<open>
  One task of the group: the error it returns (\<open>None\<close> is nil), the response it sends on
  the channel, and its collaborator calls.
\<close>

record task_result =
  returned :: "error option"
  sent :: "Response option"
  calls :: "call list"

definition quiet :: "call list \<Rightarrow> task_result" where
  "quiet cs = \<lparr>returned = None, sent = None, calls = cs\<rparr>"

definition endpointTask ::
  "env \<Rightarrow> bool \<Rightarrow> Context \<Rightarrow> config \<Rightarrow> byte list \<Rightarrow> nat \<Rightarrow> string \<Rightarrow> task_result" where
  "endpointTask e userContextUsed groupCtx cfg requestBytes i endpoint =
     (if \<not> NewRequest e endpoint then quiet []
      else case Do e groupCtx i endpoint requestBytes of
        Inl err \<Rightarrow>
          (case err of
             NotURLError \<Rightarrow> quiet [HTTPDo groupCtx endpoint]
           | URLError timeout cancelled \<Rightarrow>
               if userContextUsed \<and> (timeout \<or> cancelled)
               then \<lparr>returned = Some (newOCSPError (DoFailure err)), sent = None,
                     calls = [HTTPDo groupCtx endpoint]\<rparr>
               else quiet [HTTPDo groupCtx endpoint])
      | Inr httpResponse \<Rightarrow>
          if StatusCode httpResponse \<noteq> 200 then quiet [HTTPDo groupCtx endpoint]
          else (case Body httpResponse of
                  Inl _ \<Rightarrow> quiet [HTTPDo groupCtx endpoint]
                | Inr httpBytes \<Rightarrow>
                    (case ParseResponseForCert e httpBytes (serverCert cfg) (issuer cfg) of
                       Inl _ \<Rightarrow> quiet [HTTPDo groupCtx endpoint, CodecDecode httpBytes]
                     | Inr ocspResponse \<Rightarrow>
                         if Status ocspResponse = Unknown
                         then quiet [HTTPDo groupCtx endpoint, CodecDecode httpBytes]
                         else \<lparr>returned = Some errGotOCSPResponse, sent = Some ocspResponse,
                               calls = [HTTPDo groupCtx endpoint, CodecDecode httpBytes]\<rparr>)))"

text \<open>
  \<^verbatim>\<open>group.Wait()\<close> returns the first non-nil error returned by a task, in the order the
  tasks return; the channel holds the responses in the order they were sent.
\<close>

fun Wait :: "task_result list \<Rightarrow> error option" where
  "Wait [] = None"
| "Wait (r # rs) = (case returned r of Some err \<Rightarrow> Some err | None \<Rightarrow> Wait rs)"

fun channel :: "task_result list \<Rightarrow> Response list" where
  "channel [] = []"
| "channel (r # rs) = (case sent r of Some res \<Rightarrow> res # channel rs | None \<Rightarrow> channel rs)"

text \<open>
  The tasks of the group in the order they return: one for each index of
  \<^verbatim>\<open>cfg.serverCert.OCSPServer\<close> that the completion order names.
\<close>

definition groupResults ::
  "env \<Rightarrow> bool \<Rightarrow> Context \<Rightarrow> config \<Rightarrow> byte list \<Rightarrow> task_result list" where
  "groupResults e userContextUsed groupCtx cfg requestBytes =
     map (\<lambda>i. endpointTask e userContextUsed groupCtx cfg requestBytes i
                 (OCSPServer (serverCert cfg) ! i))
         (filter (\<lambda>i. i < length (OCSPServer (serverCert cfg))) (completionOrder e))"

definition contactResponders ::
  "env \<Rightarrow> Context \<Rightarrow> config \<Rightarrow> (error + Response option) \<times> call list" where
  "contactResponders e ctx cfg =
     (if length (OCSPServer (serverCert cfg)) = 0 then (Inr None, [])
      else case CreateRequest e (serverCert cfg) (issuer cfg) of
        Inl _ \<Rightarrow> (Inr None, [CodecEncode])
      | Inr requestBytes \<Rightarrow>
          (let (requestCtx, userContextUsed) = requestContext (nowQuery e) ctx;
               groupCtx = WithCancel requestCtx;
               results = groupResults e userContextUsed groupCtx cfg requestBytes;
               log = CodecEncode # concat (map calls results)
           in case Wait results of
                Some err \<Rightarrow>
                  if err \<noteq> errGotOCSPResponse then (Inl err, log)
                  else (case channel results of
                          [] \<Rightarrow> (Inr None, log)
                        | res # _ \<Rightarrow> (Inr (Some res), log))
              | None \<Rightarrow>
                  (case channel results of
                     [] \<Rightarrow> (Inr None, log)
                   | res # _ \<Rightarrow> (Inr (Some res), log))))"


section \<open>verifyResponse\<close>

definition verifyResponse :: "time \<Rightarrow> config \<Rightarrow> Response \<Rightarrow> error option" where
  "verifyResponse currTime cfg res =
     (if After (ThisUpdate res) currTime
      then Some (ThisUpdateAfterCurrent (ThisUpdate res) currTime)
      else if \<not> IsZero (NextUpdate res) \<and> Before (NextUpdate res) currTime
      then Some (NextUpdateBeforeCurrent (NextUpdate res) currTime)
      else if Status res = Revoked then Some CertificateRevoked
      else None)"

section \<open>Verify\<close>

text \<open>
  The result of \<^verbatim>\<open>Verify\<close> (\<open>None\<close> is nil) with the collaborator calls it made, in order.
\<close>

definition Verify :: "env \<Rightarrow> Context \<Rightarrow> ConnectionState \<Rightarrow> error option \<times> call list" where
  "Verify e ctx connState =
     (case VerifiedChains connState of
        [] \<Rightarrow> (Some (newOCSPError NoVerifiedChains), [])
      | certChain # _ \<Rightarrow>
          if length certChain = 0 then (Some (newOCSPError ChainNoCertificates), [])
          else (case newConfig e certChain of
                  Inl err \<Rightarrow> (Some (newOCSPError (ConfigFailure err)), [ConfigResolve])
                | Inr ocspCfg \<Rightarrow>
                    (case parseStaple e ocspCfg (OCSPResponse connState) of
                       (Inl err, log1) \<Rightarrow> (Some (newOCSPError err), ConfigResolve # log1)
                     | (Inr res, log1) \<Rightarrow>
                         (case (case res of
                                  None \<Rightarrow> contactResponders e ctx ocspCfg
                                | Some r \<Rightarrow> (Inr (Some r), [])) of
                            (Inl err, log2) \<Rightarrow>
                              (Some (newOCSPError err), ConfigResolve # log1 @ log2)
                          | (Inr None, log2) \<Rightarrow> (None, ConfigResolve # log1 @ log2)
                          | (Inr (Some r), log2) \<Rightarrow>
                              (map_option newOCSPError (verifyResponse (nowVerify e) ocspCfg r),
                               ConfigResolve # log1 @ log2)))))"

section \<open>Example inputs\<close>

text \<open>
  Two leaf certificates, one of them with the Must-Staple extension, a codec that decodes
  the staple \<open>[1]\<close> to a Good response and \<open>[2]\<close> to an Unknown one, and an HTTP client
  whose first responder times out and whose second answers with status Unknown.
\<close>

definition plainLeaf :: Certificate where
  "plainLeaf = \<lparr>Extensions = [\<lparr>ext_Id = [2, 5, 29, 15]\<rparr>], OCSPServer = [''http://r0'', ''http://r1'']\<rparr>"

definition mustStapleLeaf :: Certificate where
  "mustStapleLeaf =
     \<lparr>Extensions = [\<lparr>ext_Id = [2, 5, 29, 15]\<rparr>, \<lparr>ext_Id = [1, 3, 6, 1, 5, 5, 7, 1, 24]\<rparr>],
      OCSPServer = []\<rparr>"

definition issuerCert :: Certificate where
  "issuerCert = \<lparr>Extensions = [], OCSPServer = []\<rparr>"

definition goodResponse :: Response where
  "goodResponse = \<lparr>Status = Good, ThisUpdate = 900, NextUpdate = 1100\<rparr>"

definition unknownResponse :: Response where
  "unknownResponse = \<lparr>Status = Unknown, ThisUpdate = 900, NextUpdate = 0\<rparr>"

definition exampleCodec :: "byte list \<Rightarrow> Certificate \<Rightarrow> Certificate \<Rightarrow> cause + Response" where
  "exampleCodec bs c i =
     (if bs = [1] then Inr goodResponse
      else if bs = [2] then Inr unknownResponse
      else Inl ''malformed'')"

definition exampleEnv :: env where
  "exampleEnv =
     \<lparr>newConfig = (\<lambda>chain. case chain of
                      [] \<Rightarrow> Inl ''empty''
                    | [c] \<Rightarrow> Inr \<lparr>serverCert = c, issuer = c\<rparr>
                    | c # i # _ \<Rightarrow> Inr \<lparr>serverCert = c, issuer = i\<rparr>),
      ParseResponseForCert = exampleCodec,
      CreateRequest = (\<lambda>c i. Inr [7]),
      NewRequest = (\<lambda>endpoint. True),
      Do = (\<lambda>ctx i endpoint body.
              if i = 0 then Inl (URLError True False)
              else Inr \<lparr>StatusCode = 200, Body = Inr [2]\<rparr>),
      failureOrigin = (\<lambda>i. CallerDeadlineExpiry),
      nowQuery = 1000,
      nowVerify = 1000,
      completionOrder = [1, 0]\<rparr>"





lemmas example_defs = exampleEnv_def plainLeaf_def mustStapleLeaf_def issuerCert_def
  goodResponse_def unknownResponse_def exampleCodec_def

lemmas model_defs = Verify_def parseStaple_def contactResponders_def requestContext_def
  groupResults_def endpointTask_def quiet_def verifyResponse_def newOCSPError_def
  mustStapleExtensionOID_def defaultRequestTimeout_def Second_def After_def Before_def
  IsZero_def Let_def

section \<open>Auxiliary facts\<close>

lemma mustStaple_iff:
  "mustStaple xs \<longleftrightarrow> (\<exists>x \<in> set xs. ext_Id x = mustStapleExtensionOID)"
  by (induction xs) auto


lemma Wait_Some_mem: "Wait rs = Some err \<Longrightarrow> \<exists>r \<in> set rs. returned r = Some err"
  by (induction rs) (auto split: option.splits)


lemma endpointTask_returned:
  "returned (endpointTask e u g cfg rb i ep) = Some err \<Longrightarrow>
     err = errGotOCSPResponse \<or>
     (u \<and> NewRequest e ep \<and>
      (\<exists>t c. Do e g i ep rb = Inl (URLError t c) \<and> (t \<or> c) \<and>
             err = Error (DoFailure (URLError t c))))"
  by (auto simp: endpointTask_def quiet_def newOCSPError_def
           split: if_splits sum.splits transport_error.splits)

lemma endpointTask_calls:
  "c \<in> set (calls (endpointTask e u g cfg rb i ep)) \<Longrightarrow>
     c = HTTPDo g ep \<or> (\<exists>b. c = CodecDecode b)"
  by (auto simp: endpointTask_def quiet_def
           split: if_splits sum.splits transport_error.splits)

lemma newOCSPError_eq: "newOCSPError = Error"
  by (rule ext) (simp add: newOCSPError_def)

lemma Verify_no_staple:
  assumes "VerifiedChains connState = certChain # rest" and "certChain \<noteq> []"
    and "newConfig e certChain = Inr cfg"
    and "fst (parseStaple e cfg (OCSPResponse connState)) = Inr None"
  shows "Verify e ctx connState =
           (case fst (contactResponders e ctx cfg) of
              Inl err \<Rightarrow> Some (Error err)
            | Inr None \<Rightarrow> None
            | Inr (Some r) \<Rightarrow> map_option Error (verifyResponse (nowVerify e) cfg r),
            ConfigResolve # snd (contactResponders e ctx cfg))"
proof -
  have "parseStaple e cfg (OCSPResponse connState) = (Inr None, [])"
    using assms(4) by (auto simp: parseStaple_def split: if_splits sum.splits)
  then show ?thesis
    using assms(1-3)
    by (cases "contactResponders e ctx cfg")
       (auto simp: Verify_def newOCSPError_eq split: sum.splits option.splits)
qed

lemma groupResults_mem:
  "r \<in> set (groupResults e u g cfg rb) \<Longrightarrow>
     \<exists>i < length (OCSPServer (serverCert cfg)).
        r = endpointTask e u g cfg rb i (OCSPServer (serverCert cfg) ! i)"
  by (auto simp: groupResults_def)

lemma contactResponders_unfold:
  assumes "OCSPServer (serverCert cfg) \<noteq> []"
    and "CreateRequest e (serverCert cfg) (issuer cfg) = Inr rb"
    and "requestContext (nowQuery e) ctx = (rc, u)"
    and "results = groupResults e u (WithCancel rc) cfg rb"
  shows "contactResponders e ctx cfg =
           (case Wait results of
              Some err \<Rightarrow>
                if err \<noteq> errGotOCSPResponse then Inl err
                else (case channel results of [] \<Rightarrow> Inr None | res # _ \<Rightarrow> Inr (Some res))
            | None \<Rightarrow> (case channel results of [] \<Rightarrow> Inr None | res # _ \<Rightarrow> Inr (Some res)),
            CodecEncode # concat (map calls results))"
  using assms
  by (simp add: contactResponders_def Let_def split: option.splits list.splits)

lemma contactResponders_short:
  assumes "OCSPServer (serverCert cfg) = [] \<or>
           (\<exists>err. CreateRequest e (serverCert cfg) (issuer cfg) = Inl err)"
  shows "fst (contactResponders e ctx cfg) = Inr None"
    and "set (snd (contactResponders e ctx cfg)) \<subseteq> {CodecEncode}"
  using assms by (auto simp: contactResponders_def)

lemma contactResponders_Inl:
  assumes "fst (contactResponders e ctx cfg) = Inl err"
    and "requestContext (nowQuery e) ctx = (rc, u)"
    and "CreateRequest e (serverCert cfg) (issuer cfg) = Inr rb"
  shows "u \<and> (\<exists>i < length (OCSPServer (serverCert cfg)). \<exists>t c.
            (t \<or> c) \<and> NewRequest e (OCSPServer (serverCert cfg) ! i) \<and>
            Do e (WithCancel rc) i (OCSPServer (serverCert cfg) ! i) rb = Inl (URLError t c) \<and>
            err = Error (DoFailure (URLError t c)))"
proof -
  define results where "results = groupResults e u (WithCancel rc) cfg rb"
  have ne: "OCSPServer (serverCert cfg) \<noteq> []"
    using assms(1) contactResponders_short(1) [of cfg e ctx] by auto
  note unf = contactResponders_unfold [OF ne assms(3) assms(2) results_def]
  from assms(1) have w: "Wait results = Some err" and d: "err \<noteq> errGotOCSPResponse"
    by (auto simp: unf split: option.splits if_splits list.splits)
  from Wait_Some_mem [OF w] obtain r where r: "r \<in> set results" "returned r = Some err"
    by blast
  from groupResults_mem [OF r(1) [unfolded results_def]] obtain i
    where i: "i < length (OCSPServer (serverCert cfg))"
      "r = endpointTask e u (WithCancel rc) cfg rb i (OCSPServer (serverCert cfg) ! i)"
    by blast
  from endpointTask_returned [OF r(2) [unfolded i(2)]] d i(1) show ?thesis by blast
qed

lemma contactResponders_calls:
  assumes "c \<in> set (snd (contactResponders e ctx cfg))"
  shows "c = CodecEncode \<or> (\<exists>b. c = CodecDecode b) \<or>
         (\<exists>endpoint. c = HTTPDo (WithCancel (fst (requestContext (nowQuery e) ctx))) endpoint)"
proof (cases "OCSPServer (serverCert cfg) = [] \<or>
           (\<exists>err. CreateRequest e (serverCert cfg) (issuer cfg) = Inl err)")
  case True
  from contactResponders_short(2) [OF True] assms show ?thesis by auto
next
  case False
  then obtain rb where rb: "CreateRequest e (serverCert cfg) (issuer cfg) = Inr rb"
    and ne: "OCSPServer (serverCert cfg) \<noteq> []"
    by (cases "CreateRequest e (serverCert cfg) (issuer cfg)") auto
  obtain rc u where ru: "requestContext (nowQuery e) ctx = (rc, u)"
    by (cases "requestContext (nowQuery e) ctx")
  define results where "results = groupResults e u (WithCancel rc) cfg rb"
  note unf = contactResponders_unfold [OF ne rb ru results_def]
  from assms have "c = CodecEncode \<or> (\<exists>r \<in> set results. c \<in> set (calls r))"
    by (auto simp: unf)
  then show ?thesis
  proof
    assume "c = CodecEncode" then show ?thesis by simp
  next
    assume "\<exists>r \<in> set results. c \<in> set (calls r)"
    then obtain r where r: "r \<in> set results" "c \<in> set (calls r)" by blast
    from groupResults_mem [OF r(1) [unfolded results_def]] obtain i
      where "r = endpointTask e u (WithCancel rc) cfg rb i (OCSPServer (serverCert cfg) ! i)"
      by blast
    with endpointTask_calls r(2) ru show ?thesis by fastforce
  qed
qed













section \<open>The verifier\<close>

text \<open>
  C7: when the set of verified chains is empty, or its first chain holds no certificate,
  \<^verbatim>\<open>Verify\<close> returns the package's error (wrapping "no verified certificate chains
  reported after TLS handshake", respectively "verified chain contained no certificates")
  and has called no collaborator: neither the config resolver, nor the codec, nor the
  HTTP client. The result is the same for every environment, context and staple.
\<close>

theorem Verify_no_chain:
  assumes "VerifiedChains connState = [] \<or> (\<exists>rest. VerifiedChains connState = [] # rest)"
  shows "Verify e ctx connState =
           (Some (Error (if VerifiedChains connState = [] then NoVerifiedChains
                         else ChainNoCertificates)), [])"
  using assms by (auto simp: Verify_def newOCSPError_def)

theorem Verify_no_chain_witness:
  "Verify exampleEnv (CallerContext None) \<lparr>VerifiedChains = [], OCSPResponse = [1]\<rparr>
     = (Some (Error NoVerifiedChains), []) \<and>
   Verify exampleEnv (CallerContext None)
      \<lparr>VerifiedChains = [[], [plainLeaf, issuerCert]], OCSPResponse = [1]\<rparr>
     = (Some (Error ChainNoCertificates), [])"
  using Verify_no_chain [of "\<lparr>VerifiedChains = [], OCSPResponse = [1]\<rparr>" exampleEnv "CallerContext None"]
    Verify_no_chain [of "\<lparr>VerifiedChains = [[], [plainLeaf, issuerCert]], OCSPResponse = [1]\<rparr>"
      exampleEnv "CallerContext None"]
  by simp

text \<open>
  C1: when the chain is usable, the staple validator returns no response and no error, and
  the responder query returns no response and no error, \<^verbatim>\<open>Verify\<close> returns nil.
\<close>

theorem Verify_fail_open:
  assumes "VerifiedChains connState = certChain # rest" and "certChain \<noteq> []"
    and "newConfig e certChain = Inr cfg"
    and "fst (parseStaple e cfg (OCSPResponse connState)) = Inr None"
    and "fst (contactResponders e ctx cfg) = Inr None"
  shows "fst (Verify e ctx connState) = None"
  using Verify_no_staple [OF assms(1-4), of ctx] assms(5) by simp

theorem Verify_fail_open_witness:
  "fst (parseStaple exampleEnv \<lparr>serverCert = plainLeaf, issuer = issuerCert\<rparr> []) = Inr None \<and>
   fst (contactResponders exampleEnv (CallerContext None)
          \<lparr>serverCert = plainLeaf, issuer = issuerCert\<rparr>) = Inr None \<and>
   fst (Verify exampleEnv (CallerContext None)
          \<lparr>VerifiedChains = [[plainLeaf, issuerCert]], OCSPResponse = []\<rparr>) = None"
proof -
  let ?cfg = "\<lparr>serverCert = plainLeaf, issuer = issuerCert\<rparr>"
  let ?cs = "\<lparr>VerifiedChains = [[plainLeaf, issuerCert]], OCSPResponse = []\<rparr>"
  have h1: "VerifiedChains ?cs = [plainLeaf, issuerCert] # []" by simp
  have h2: "[plainLeaf, issuerCert] \<noteq> []" by simp
  have h3: "newConfig exampleEnv [plainLeaf, issuerCert] = Inr ?cfg"
    by (simp add: exampleEnv_def)
  have h4: "fst (parseStaple exampleEnv ?cfg (OCSPResponse ?cs)) = Inr None"
    by (simp add: parseStaple_def plainLeaf_def mustStapleExtensionOID_def)
  have h5: "fst (contactResponders exampleEnv (CallerContext None) ?cfg) = Inr None"
    by (simp add: model_defs example_defs)
  from Verify_fail_open [OF h1 h2 h3 h4 h5] h4 h5 show ?thesis by simp
qed

text \<open>
  C9: when the chain is usable and the staple validator returns a decoded response,
  \<^verbatim>\<open>Verify\<close> returns the validator's verdict on that response, and its only collaborator
  calls are the config resolver's and the decoding of the staple: \<^verbatim>\<open>contactResponders\<close> is
  not run, so the request encoder and the HTTP client are never called, and the result is
  the same for every caller context, request encoder, HTTP client, clock reading of the
  query and completion order. When that response has status Good, a \<^verbatim>\<open>thisUpdate\<close> not
  after the current time and a \<^verbatim>\<open>nextUpdate\<close> that is zero or not before it, \<^verbatim>\<open>Verify\<close>
  returns nil.
\<close>

theorem Verify_usable_staple:
  assumes "VerifiedChains connState = certChain # rest" and "certChain \<noteq> []"
    and "newConfig e certChain = Inr cfg"
    and "fst (parseStaple e cfg (OCSPResponse connState)) = Inr (Some res)"
  shows "Verify e ctx connState =
           (map_option Error (verifyResponse (nowVerify e) cfg res),
            [ConfigResolve, CodecDecode (OCSPResponse connState)]) \<and>
         Verify (e\<lparr>CreateRequest := cr, NewRequest := nr, Do := d, nowQuery := t,
                   completionOrder := ord\<rparr>) ctx' connState = Verify e ctx connState \<and>
         (Status res = Good \<and> ThisUpdate res \<le> nowVerify e \<and>
          (NextUpdate res = 0 \<or> nowVerify e \<le> NextUpdate res) \<longrightarrow>
            fst (Verify e ctx connState) = None)"
proof -
  let ?e' = "e\<lparr>CreateRequest := cr, NewRequest := nr, Do := d, nowQuery := t,
               completionOrder := ord\<rparr>"
  have p: "parseStaple e cfg (OCSPResponse connState) =
             (Inr (Some res), [CodecDecode (OCSPResponse connState)])"
    using assms(4) by (auto simp: parseStaple_def split: if_splits sum.splits)
  have p': "parseStaple ?e' cfg (OCSPResponse connState) =
              parseStaple e cfg (OCSPResponse connState)"
    by (simp add: parseStaple_def)
  have v: "Verify e c connState =
             (map_option Error (verifyResponse (nowVerify e) cfg res),
              [ConfigResolve, CodecDecode (OCSPResponse connState)])" for c
    using assms(1-3) p by (simp add: Verify_def newOCSPError_eq)
  have v': "Verify ?e' ctx' connState =
             (map_option Error (verifyResponse (nowVerify e) cfg res),
              [ConfigResolve, CodecDecode (OCSPResponse connState)])"
    using assms(1-3) p p' by (simp add: Verify_def newOCSPError_eq)
  have g: "verifyResponse (nowVerify e) cfg res = None"
    if "Status res = Good" "ThisUpdate res \<le> nowVerify e"
       "NextUpdate res = 0 \<or> nowVerify e \<le> NextUpdate res"
    using that by (auto simp: verifyResponse_def After_def Before_def IsZero_def)
  show ?thesis using v v' g by simp
qed

theorem Verify_usable_staple_witness:
  "Verify exampleEnv (CallerContext (Some 2000))
     \<lparr>VerifiedChains = [[plainLeaf, issuerCert]], OCSPResponse = [1]\<rparr>
     = (None, [ConfigResolve, CodecDecode [1]]) \<and>
   Verify (exampleEnv\<lparr>CreateRequest := \<lambda>c i. Inl ''x'', NewRequest := \<lambda>u. False,
              Do := \<lambda>c i u b. Inl NotURLError, nowQuery := 7, completionOrder := []\<rparr>)
     (CallerContext None) \<lparr>VerifiedChains = [[plainLeaf, issuerCert]], OCSPResponse = [1]\<rparr>
     = (None, [ConfigResolve, CodecDecode [1]])"
proof -
  let ?cfg = "\<lparr>serverCert = plainLeaf, issuer = issuerCert\<rparr>"
  let ?cs = "\<lparr>VerifiedChains = [[plainLeaf, issuerCert]], OCSPResponse = [1]\<rparr>"
  have h1: "VerifiedChains ?cs = [plainLeaf, issuerCert] # []" by simp
  have h2: "[plainLeaf, issuerCert] \<noteq> []" by simp
  have h3: "newConfig exampleEnv [plainLeaf, issuerCert] = Inr ?cfg"
    by (simp add: exampleEnv_def)
  have h4: "fst (parseStaple exampleEnv ?cfg (OCSPResponse ?cs)) = Inr (Some goodResponse)"
    by (simp add: parseStaple_def plainLeaf_def mustStapleExtensionOID_def exampleEnv_def
        exampleCodec_def)
  have n: "nowVerify exampleEnv = 1000" by (simp add: exampleEnv_def)
  note T = Verify_usable_staple [OF h1 h2 h3 h4, where ctx = "CallerContext (Some 2000)"
      and cr = "\<lambda>c i. Inl ''x''" and nr = "\<lambda>u. False" and d = "\<lambda>c i u b. Inl NotURLError"
      and t = 7 and ord = "[]" and ctx' = "CallerContext None"]
  have a: "snd (Verify exampleEnv (CallerContext (Some 2000)) ?cs)
             = [ConfigResolve, CodecDecode [1]]"
    using T [THEN conjunct1] by simp
  have b: "Verify (exampleEnv\<lparr>CreateRequest := \<lambda>c i. Inl ''x'', NewRequest := \<lambda>u. False,
              Do := \<lambda>c i u b. Inl NotURLError, nowQuery := 7, completionOrder := []\<rparr>)
             (CallerContext None) ?cs = Verify exampleEnv (CallerContext (Some 2000)) ?cs"
    using T by blast
  have c: "fst (Verify exampleEnv (CallerContext (Some 2000)) ?cs) = None"
    using T [THEN conjunct2, THEN conjunct2] by (simp add: n goodResponse_def)
  show ?thesis using a b c by (simp add: prod_eq_iff)
qed

section \<open>The staple validator\<close>

text \<open>
  C5: for an empty staple, \<^verbatim>\<open>parseStaple\<close> returns the error "server provided a certificate
  with the Must-Staple extension but did not provide a stapled OCSP response" when some
  extension of the leaf has the OID 1.3.6.1.5.5.7.1.24, and otherwise returns no response
  and no error; in the second case \<^verbatim>\<open>Verify\<close> goes on to \<^verbatim>\<open>contactResponders\<close>: its
  collaborator calls are the config resolver's followed by those of the responder query.
\<close>

theorem parseStaple_empty_staple:
  assumes "staple = []"
  shows "((\<exists>x \<in> set (Extensions (serverCert cfg)). ext_Id x = [1, 3, 6, 1, 5, 5, 7, 1, 24]) \<longrightarrow>
            parseStaple e cfg staple = (Inl MustStapleMissing, [])) \<and>
         (\<not> (\<exists>x \<in> set (Extensions (serverCert cfg)). ext_Id x = [1, 3, 6, 1, 5, 5, 7, 1, 24]) \<longrightarrow>
            parseStaple e cfg staple = (Inr None, []) \<and>
            (\<forall>connState certChain rest ctx.
               VerifiedChains connState = certChain # rest \<and> certChain \<noteq> [] \<and>
               newConfig e certChain = Inr cfg \<and> OCSPResponse connState = staple \<longrightarrow>
               snd (Verify e ctx connState) = ConfigResolve # snd (contactResponders e ctx cfg)))"
proof -
  have m: "mustStaple (Extensions (serverCert cfg)) \<longleftrightarrow>
           (\<exists>x \<in> set (Extensions (serverCert cfg)). ext_Id x = [1, 3, 6, 1, 5, 5, 7, 1, 24])"
    by (simp add: mustStaple_iff mustStapleExtensionOID_def)
  have a: "mustStaple (Extensions (serverCert cfg)) \<Longrightarrow>
           parseStaple e cfg staple = (Inl MustStapleMissing, [])"
    using assms by (simp add: parseStaple_def)
  have b: "\<not> mustStaple (Extensions (serverCert cfg)) \<Longrightarrow>
           parseStaple e cfg staple = (Inr None, [])"
    using assms by (simp add: parseStaple_def)
  have c: "snd (Verify e ctx connState) = ConfigResolve # snd (contactResponders e ctx cfg)"
    if "\<not> mustStaple (Extensions (serverCert cfg))"
      and "VerifiedChains connState = certChain # rest" and "certChain \<noteq> []"
      and "newConfig e certChain = Inr cfg" and "OCSPResponse connState = staple"
    for connState certChain rest ctx
    using Verify_no_staple [OF that(2) that(3) that(4), of ctx] b [OF that(1)] that(5)
    by simp
  show ?thesis using a b c m by blast
qed

theorem parseStaple_empty_staple_witness:
  "parseStaple exampleEnv \<lparr>serverCert = mustStapleLeaf, issuer = issuerCert\<rparr> []
     = (Inl MustStapleMissing, []) \<and>
   parseStaple exampleEnv \<lparr>serverCert = plainLeaf, issuer = issuerCert\<rparr> []
     = (Inr None, []) \<and>
   snd (Verify exampleEnv (CallerContext None)
          \<lparr>VerifiedChains = [[plainLeaf, issuerCert]], OCSPResponse = []\<rparr>)
     = ConfigResolve #
       snd (contactResponders exampleEnv (CallerContext None)
              \<lparr>serverCert = plainLeaf, issuer = issuerCert\<rparr>)"
proof -
  have e: "([]::byte list) = []" by simp
  have n: "newConfig exampleEnv [plainLeaf, issuerCert] = Inr \<lparr>serverCert = plainLeaf, issuer = issuerCert\<rparr>"
    by (simp add: exampleEnv_def)
  from parseStaple_empty_staple [OF e, of "\<lparr>serverCert = mustStapleLeaf, issuer = issuerCert\<rparr>" exampleEnv]
  have a: "parseStaple exampleEnv \<lparr>serverCert = mustStapleLeaf, issuer = issuerCert\<rparr> []
     = (Inl MustStapleMissing, [])"
    by (simp add: mustStapleLeaf_def)
  from parseStaple_empty_staple [OF e, of "\<lparr>serverCert = plainLeaf, issuer = issuerCert\<rparr>" exampleEnv]
  have b: "parseStaple exampleEnv \<lparr>serverCert = plainLeaf, issuer = issuerCert\<rparr> [] = (Inr None, []) \<and>
           (\<forall>connState certChain rest ctx.
               VerifiedChains connState = certChain # rest \<and> certChain \<noteq> [] \<and>
               newConfig exampleEnv certChain = Inr \<lparr>serverCert = plainLeaf, issuer = issuerCert\<rparr> \<and>
               OCSPResponse connState = [] \<longrightarrow>
               snd (Verify exampleEnv ctx connState) =
               ConfigResolve # snd (contactResponders exampleEnv ctx \<lparr>serverCert = plainLeaf, issuer = issuerCert\<rparr>))"
    by (simp add: plainLeaf_def)
  from b n have c: "snd (Verify exampleEnv (CallerContext None)
          \<lparr>VerifiedChains = [[plainLeaf, issuerCert]], OCSPResponse = []\<rparr>)
     = ConfigResolve #
       snd (contactResponders exampleEnv (CallerContext None)
              \<lparr>serverCert = plainLeaf, issuer = issuerCert\<rparr>)"
    by simp
  from a b c show ?thesis by simp
qed

text \<open>
  C6: for a non-empty staple, whatever the extensions of the leaf: when the codec fails to
  decode the staple for the server certificate and its issuer, \<^verbatim>\<open>parseStaple\<close> returns the
  error "error parsing stapled response" with the codec's cause; when the codec succeeds,
  \<^verbatim>\<open>parseStaple\<close> returns the decoded response and no error.
\<close>

theorem parseStaple_decode:
  assumes "staple \<noteq> []"
  shows "(\<forall>err. ParseResponseForCert e staple (serverCert cfg) (issuer cfg) = Inl err \<longrightarrow>
            parseStaple e cfg staple = (Inl (StapleParseFailure err), [CodecDecode staple])) \<and>
         (\<forall>res. ParseResponseForCert e staple (serverCert cfg) (issuer cfg) = Inr res \<longrightarrow>
            parseStaple e cfg staple = (Inr (Some res), [CodecDecode staple]))"
  using assms by (simp add: parseStaple_def)

theorem parseStaple_decode_witness:
  "parseStaple exampleEnv \<lparr>serverCert = mustStapleLeaf, issuer = issuerCert\<rparr> [3]
     = (Inl (StapleParseFailure ''malformed''), [CodecDecode [3]]) \<and>
   parseStaple exampleEnv \<lparr>serverCert = plainLeaf, issuer = issuerCert\<rparr> [3]
     = (Inl (StapleParseFailure ''malformed''), [CodecDecode [3]]) \<and>
   parseStaple exampleEnv \<lparr>serverCert = mustStapleLeaf, issuer = issuerCert\<rparr> [1]
     = (Inr (Some goodResponse), [CodecDecode [1]])"
proof -
  have n3: "[3::byte] \<noteq> []" and n1: "[1::byte] \<noteq> []" by simp_all
  have p3: "ParseResponseForCert exampleEnv [3] c i = Inl ''malformed''" for c i
    by (simp add: exampleEnv_def exampleCodec_def)
  have p1: "ParseResponseForCert exampleEnv [1] c i = Inr goodResponse" for c i
    by (simp add: exampleEnv_def exampleCodec_def)
  from parseStaple_decode [OF n3, of exampleEnv "\<lparr>serverCert = mustStapleLeaf, issuer = issuerCert\<rparr>"]
    parseStaple_decode [OF n3, of exampleEnv "\<lparr>serverCert = plainLeaf, issuer = issuerCert\<rparr>"]
    parseStaple_decode [OF n1, of exampleEnv "\<lparr>serverCert = mustStapleLeaf, issuer = issuerCert\<rparr>"]
  show ?thesis by (simp add: p3 p1)
qed

section \<open>The responder querier\<close>

text \<open>
  C8: when the server certificate lists no OCSP responder, or the codec fails to build the
  request, \<^verbatim>\<open>contactResponders\<close> returns no response and no error, and no HTTP call is
  made.
\<close>

theorem contactResponders_no_opinion:
  assumes "OCSPServer (serverCert cfg) = [] \<or>
           (\<exists>err. CreateRequest e (serverCert cfg) (issuer cfg) = Inl err)"
  shows "fst (contactResponders e ctx cfg) = Inr None \<and>
         (\<forall>c endpoint. HTTPDo c endpoint \<notin> set (snd (contactResponders e ctx cfg)))"
  using contactResponders_short [OF assms, of ctx] by auto

theorem contactResponders_no_opinion_witness:
  "contactResponders exampleEnv (CallerContext (Some 2000))
     \<lparr>serverCert = mustStapleLeaf, issuer = issuerCert\<rparr> = (Inr None, []) \<and>
   contactResponders (exampleEnv\<lparr>CreateRequest := \<lambda>c i. Inl ''unsupported hash''\<rparr>)
     (CallerContext (Some 2000)) \<lparr>serverCert = plainLeaf, issuer = issuerCert\<rparr>
     = (Inr None, [CodecEncode])"
proof -
  let ?e = "exampleEnv\<lparr>CreateRequest := \<lambda>c i. Inl ''unsupported hash''\<rparr>"
  have h1: "OCSPServer (serverCert \<lparr>serverCert = mustStapleLeaf, issuer = issuerCert\<rparr>) = [] \<or>
     (\<exists>err. CreateRequest exampleEnv (serverCert \<lparr>serverCert = mustStapleLeaf, issuer = issuerCert\<rparr>)
        (issuer \<lparr>serverCert = mustStapleLeaf, issuer = issuerCert\<rparr>) = Inl err)"
    by (simp add: mustStapleLeaf_def)
  have h2: "OCSPServer (serverCert \<lparr>serverCert = plainLeaf, issuer = issuerCert\<rparr>) = [] \<or>
     (\<exists>err. CreateRequest ?e (serverCert \<lparr>serverCert = plainLeaf, issuer = issuerCert\<rparr>)
        (issuer \<lparr>serverCert = plainLeaf, issuer = issuerCert\<rparr>) = Inl err)"
    by simp
  have l1: "snd (contactResponders exampleEnv (CallerContext (Some 2000))
     \<lparr>serverCert = mustStapleLeaf, issuer = issuerCert\<rparr>) = []"
    by (simp add: contactResponders_def mustStapleLeaf_def)
  have l2: "snd (contactResponders ?e (CallerContext (Some 2000))
     \<lparr>serverCert = plainLeaf, issuer = issuerCert\<rparr>) = [CodecEncode]"
    by (simp add: contactResponders_def plainLeaf_def)
  from contactResponders_no_opinion [OF h1, of "CallerContext (Some 2000)"]
    contactResponders_no_opinion [OF h2, of "CallerContext (Some 2000)"] l1 l2
  show ?thesis by (simp add: prod_eq_iff)
qed

text \<open>
  C2: with the cutoff \<^verbatim>\<open>time.Now()\<close> plus five seconds: when the caller's context has no
  deadline, or a deadline after the cutoff, the working context is derived from it by
  \<^verbatim>\<open>context.WithDeadline\<close> at the cutoff (its deadline is the cutoff) and
  \<^verbatim>\<open>userContextUsed\<close> is false; when the caller's deadline is before the cutoff, the working
  context is the caller's own and \<^verbatim>\<open>userContextUsed\<close> is true. Every HTTP request of the
  query runs under the group context of that working context.
\<close>

theorem requestContext_composition:
  "((Deadline ctx = None \<or> (\<exists>d. Deadline ctx = Some d \<and> now + 5 * 1000000000 < d)) \<longrightarrow>
      requestContext now ctx = (WithDeadline ctx (now + 5 * 1000000000), False) \<and>
      Deadline (fst (requestContext now ctx)) = Some (now + 5 * 1000000000)) \<and>
   ((\<exists>d. Deadline ctx = Some d \<and> d < now + 5 * 1000000000) \<longrightarrow>
      requestContext now ctx = (ctx, True)) \<and>
   (\<forall>e cfg c endpoint. HTTPDo c endpoint \<in> set (snd (contactResponders e ctx cfg)) \<longrightarrow>
      c = WithCancel (fst (requestContext (nowQuery e) ctx)))"
proof -
  have a: "requestContext now ctx = (WithDeadline ctx (now + 5 * 1000000000), False) \<and>
      Deadline (fst (requestContext now ctx)) = Some (now + 5 * 1000000000)"
    if "Deadline ctx = None \<or> (\<exists>d. Deadline ctx = Some d \<and> now + 5 * 1000000000 < d)"
    using that
    by (auto simp: requestContext_def defaultRequestTimeout_def Second_def After_def Before_def)
  have b: "requestContext now ctx = (ctx, True)"
    if "\<exists>d. Deadline ctx = Some d \<and> d < now + 5 * 1000000000"
    using that
    by (auto simp: requestContext_def defaultRequestTimeout_def Second_def After_def)
  have c: "c = WithCancel (fst (requestContext (nowQuery e) ctx))"
    if "HTTPDo c endpoint \<in> set (snd (contactResponders e ctx cfg))" for e cfg c endpoint
    using contactResponders_calls [OF that] by auto
  show ?thesis using a b c by blast
qed

theorem requestContext_composition_witness:
  "requestContext 1000 (CallerContext None)
     = (WithDeadline (CallerContext None) 5000001000, False) \<and>
   requestContext 1000 (CallerContext (Some 6000000000))
     = (WithDeadline (CallerContext (Some 6000000000)) 5000001000, False) \<and>
   Deadline (fst (requestContext 1000 (CallerContext (Some 6000000000)))) = Some 5000001000 \<and>
   requestContext 1000 (CallerContext (Some 2000)) = (CallerContext (Some 2000), True) \<and>
   HTTPDo (WithCancel (CallerContext (Some 2000))) ''http://r0''
     \<in> set (snd (contactResponders exampleEnv (CallerContext (Some 2000))
                   \<lparr>serverCert = plainLeaf, issuer = issuerCert\<rparr>))"
proof -
  have m: "HTTPDo (WithCancel (CallerContext (Some 2000))) ''http://r0''
     \<in> set (snd (contactResponders exampleEnv (CallerContext (Some 2000))
                   \<lparr>serverCert = plainLeaf, issuer = issuerCert\<rparr>))"
    by (simp add: model_defs example_defs)
  from requestContext_composition [of "CallerContext None" 1000]
    requestContext_composition [of "CallerContext (Some 6000000000)" 1000]
    requestContext_composition [of "CallerContext (Some 2000)" 1000] m
  show ?thesis by (simp add: Before_def)
qed




text \<open>
  The group keeps the first error only: a task that fails with a cancellation after a
  sibling has sent a conclusive response returns an error, and the query still returns the
  sibling's response.
\<close>

lemma conclusive_sibling_first:
  "returned (endpointTask (exampleEnv\<lparr>Do := \<lambda>ctx i endpoint body.
                 if i = 0 then Inl (URLError False True)
                 else Inr \<lparr>StatusCode = 200, Body = Inr [1]\<rparr>,
               failureOrigin := \<lambda>i. GroupCancellation\<rparr>)
              True (WithCancel (CallerContext (Some 2000)))
              \<lparr>serverCert = plainLeaf, issuer = issuerCert\<rparr> [7] 0 ''http://r0'')
     = Some (Error (DoFailure (URLError False True))) \<and>
   fst (contactResponders (exampleEnv\<lparr>Do := \<lambda>ctx i endpoint body.
                 if i = 0 then Inl (URLError False True)
                 else Inr \<lparr>StatusCode = 200, Body = Inr [1]\<rparr>,
               failureOrigin := \<lambda>i. GroupCancellation\<rparr>)
          (CallerContext (Some 2000)) \<lparr>serverCert = plainLeaf, issuer = issuerCert\<rparr>)
     = Inr (Some goodResponse)"
  by (simp add: model_defs example_defs)

section \<open>The response validator\<close>

text \<open>
  C4: \<^verbatim>\<open>verifyResponse\<close> makes three checks in order. A \<^verbatim>\<open>thisUpdate\<close> after the current time
  gives the error "reported thisUpdate time is after current time", whatever the other
  fields. Otherwise a non-zero \<^verbatim>\<open>nextUpdate\<close> before the current time gives the error
  "reported nextUpdate time is before current time", whatever the status. Otherwise the
  status Revoked gives the error "certificate is revoked". A Good response with
  \<^verbatim>\<open>thisUpdate\<close> in the past and \<^verbatim>\<open>nextUpdate\<close> in the future gives no error, and there is
  no error exactly when none of the three checks fails.
\<close>

theorem verifyResponse_checks:
  "(currTime < ThisUpdate res \<longrightarrow>
      verifyResponse currTime cfg res = Some (ThisUpdateAfterCurrent (ThisUpdate res) currTime)) \<and>
   (ThisUpdate res \<le> currTime \<and> NextUpdate res \<noteq> 0 \<and> NextUpdate res < currTime \<longrightarrow>
      verifyResponse currTime cfg res = Some (NextUpdateBeforeCurrent (NextUpdate res) currTime)) \<and>
   (ThisUpdate res \<le> currTime \<and> (NextUpdate res = 0 \<or> currTime \<le> NextUpdate res) \<and>
    Status res = Revoked \<longrightarrow>
      verifyResponse currTime cfg res = Some CertificateRevoked) \<and>
   (Status res = Good \<and> ThisUpdate res < currTime \<and> currTime < NextUpdate res \<longrightarrow>
      verifyResponse currTime cfg res = None) \<and>
   (verifyResponse currTime cfg res = None \<longleftrightarrow>
      ThisUpdate res \<le> currTime \<and> (NextUpdate res = 0 \<or> currTime \<le> NextUpdate res) \<and>
      Status res \<noteq> Revoked)"
  by (auto simp: verifyResponse_def After_def Before_def IsZero_def)

theorem verifyResponse_checks_witness:
  "verifyResponse 1000 \<lparr>serverCert = plainLeaf, issuer = issuerCert\<rparr>
     \<lparr>Status = Revoked, ThisUpdate = 4600, NextUpdate = 400\<rparr>
     = Some (ThisUpdateAfterCurrent 4600 1000) \<and>
   verifyResponse 1000 \<lparr>serverCert = plainLeaf, issuer = issuerCert\<rparr>
     \<lparr>Status = Revoked, ThisUpdate = 900, NextUpdate = 400\<rparr>
     = Some (NextUpdateBeforeCurrent 400 1000) \<and>
   verifyResponse 1000 \<lparr>serverCert = plainLeaf, issuer = issuerCert\<rparr>
     \<lparr>Status = Revoked, ThisUpdate = 900, NextUpdate = 1100\<rparr>
     = Some CertificateRevoked \<and>
   verifyResponse 1000 \<lparr>serverCert = plainLeaf, issuer = issuerCert\<rparr> goodResponse = None"
  using
    verifyResponse_checks [of 1000 "\<lparr>Status = Revoked, ThisUpdate = 4600, NextUpdate = 400\<rparr>"
      "\<lparr>serverCert = plainLeaf, issuer = issuerCert\<rparr>"]
    verifyResponse_checks [of 1000 "\<lparr>Status = Revoked, ThisUpdate = 900, NextUpdate = 400\<rparr>"
      "\<lparr>serverCert = plainLeaf, issuer = issuerCert\<rparr>"]
    verifyResponse_checks [of 1000 "\<lparr>Status = Revoked, ThisUpdate = 900, NextUpdate = 1100\<rparr>"
      "\<lparr>serverCert = plainLeaf, issuer = issuerCert\<rparr>"]
    verifyResponse_checks [of 1000 goodResponse "\<lparr>serverCert = plainLeaf, issuer = issuerCert\<rparr>"]
  by (simp add: goodResponse_def)

text \<open>
  C10: a response whose \<^verbatim>\<open>thisUpdate\<close> is not after the current time and whose
  \<^verbatim>\<open>nextUpdate\<close> is zero or not before the current time passes \<^verbatim>\<open>verifyResponse\<close> whenever
  its status is not Revoked; a response with status Unknown is such a response.
\<close>

theorem verifyResponse_not_Revoked:
  assumes "ThisUpdate res \<le> currTime"
    and "NextUpdate res = 0 \<or> currTime \<le> NextUpdate res"
    and "Status res \<noteq> Revoked"
  shows "verifyResponse currTime cfg res = None"
  using assms by (auto simp: verifyResponse_def After_def Before_def IsZero_def)

theorem verifyResponse_not_Revoked_witness:
  "Status unknownResponse = Unknown \<and>
   verifyResponse 1000 \<lparr>serverCert = plainLeaf, issuer = issuerCert\<rparr> unknownResponse = None"
proof -
  have h1: "ThisUpdate unknownResponse \<le> 1000"
    and h2: "NextUpdate unknownResponse = 0 \<or> 1000 \<le> NextUpdate unknownResponse"
    and h3: "Status unknownResponse \<noteq> Revoked"
    by (simp_all add: unknownResponse_def)
  from verifyResponse_not_Revoked [OF h1 h2 h3] show ?thesis
    by (simp add: unknownResponse_def)
qed

text \<open>
  A staple that decodes to a response with status Unknown reaches \<^verbatim>\<open>verifyResponse\<close>, and
  \<^verbatim>\<open>Verify\<close> returns nil.
\<close>

lemma Unknown_staple_accepted:
  "Verify exampleEnv (CallerContext None)
     \<lparr>VerifiedChains = [[plainLeaf, issuerCert]], OCSPResponse = [2]\<rparr>
     = (None, [ConfigResolve, CodecDecode [2]])"
  by (simp add: model_defs example_defs)

end
